theory Spec2Isabelle
  imports Main
begin

section \<open>Values obtained from a request body\<close>

text \<open>
  \<^verbatim>\<open>JSON.parse\<close> yields an arbitrary JSON value. Numbers are IEEE doubles in the
  program; no handler computes with them, so their type is left as the parameter \<open>'n\<close>.
  An object lists its own properties in the order in which they were created.
\<close>

datatype 'n json =
    JNull
  | JBool bool
  | JNumber 'n
  | JString string
  | JArray "'n json list"
  | JObject "(string \<times> 'n json) list"

text \<open>
  A record of the table (the \<^verbatim>\<open>Item\<close> of a command, a stored row) is a finite set of
  named attributes.
\<close>

type_synonym 'n item = "string \<rightharpoonup> 'n json"

text \<open>The decimal numeral of an index, as used for the property names of arrays and strings.\<close>

fun decimal :: "nat \<Rightarrow> string" where
  "decimal n =
     (if n < 10 then [char_of (48 + n)]
      else decimal (n div 10) @ [char_of (48 + n mod 10)])"

declare decimal.simps [simp del]

text \<open>
  The own enumerable properties that the spread \<^verbatim>\<open>...bodyParsed\<close> copies, in order:
  the members of an object, the elements of an array under their indices, the characters
  of a string under their indices, and nothing for \<^verbatim>\<open>null\<close>, a boolean or a number.
\<close>

fun ownProperties :: "'n json \<Rightarrow> (string \<times> 'n json) list" where
  "ownProperties (JObject kvs) = kvs"
| "ownProperties (JArray xs) = zip (map decimal [0..<length xs]) xs"
| "ownProperties (JString s) = zip (map decimal [0..<length s]) (map (\<lambda>c. JString [c]) s)"
| "ownProperties JNull = []"
| "ownProperties (JBool b) = []"
| "ownProperties (JNumber n) = []"

text \<open>
  Spreading into an object literal defines the properties one after the other on the object
  built so far; a name that is already there gets the new value.
\<close>

definition spread :: "'n item \<Rightarrow> (string \<times> 'n json) list \<Rightarrow> 'n item" where
  "spread target props = foldl (\<lambda>obj (k, v). obj(k \<mapsto> v)) target props"

text \<open>The value of the own property \<open>k\<close> of a parsed value, if it has one.\<close>

definition property :: "'n json \<Rightarrow> string \<Rightarrow> 'n json option" where
  "property v k = map_of (rev (ownProperties v)) k"

section \<open>The key-value store\<close>

text \<open>
  The stack declares one table, whose partition key is the string attribute \<^verbatim>\<open>pk\<close>
  (\<^verbatim>\<open>partitionKey: { name: 'pk', type: AttributeType.STRING }\<close>). A table holds at most
  one row per value of that attribute.
\<close>

definition partitionKey :: string where
  "partitionKey = ''pk''"

type_synonym 'n table = "string \<rightharpoonup> 'n item"

datatype 'n command =
    PutCommand (TableName: "string option") (Item: "'n item")
  | GetCommand (TableName: "string option") (Key: "'n item")

text \<open>
  The state outside the handler: the tables of the store by name, and every command that
  was handed to \<^verbatim>\<open>dynamodb.send\<close>, oldest first.
\<close>

record 'n world =
  tables :: "string \<rightharpoonup> 'n table"
  requests :: "'n command list"

datatype store_error =
    ValidationException
  | ResourceNotFoundException
  | AccessDeniedException
  | ThrottlingException
  | NetworkingError

text \<open>What escapes from a handler as an exception (a rejected promise).\<close>

datatype error =
    SyntaxError
  | StoreError store_error

text \<open>
  What one invocation of a handler reads from outside its code:
  \<^item> \<open>TABLE_NAME\<close>: \<^verbatim>\<open>process.env.TABLE_NAME\<close>, which may be undefined;
  \<^item> \<open>randomUUID\<close>: the string that the call \<^verbatim>\<open>randomUUID()\<close> returns in this invocation;
  \<^item> \<open>JSON_parse\<close>: the built-in \<^verbatim>\<open>JSON.parse\<close>, \<open>None\<close> where it throws;
  \<^item> \<open>store_fault\<close>: the failure, if any, with which the store service answers the
    request of this invocation for a reason of its own (network, throttling, permission,
    a limit of the service, a value that the client library refuses to convert).
\<close>

record 'n runtime =
  TABLE_NAME :: "string option"
  randomUUID :: string
  JSON_parse :: "string \<Rightarrow> 'n json option"
  store_fault :: "store_error option"

text \<open>
  \<^verbatim>\<open>dynamodb.send(command)\<close>. The call is recorded; it is rejected on a fault of the
  service, without a table name, for a table that does not exist, and when the key attribute
  is missing from the record, is not a string or is the empty string. A put replaces the
  row of that key, a get returns it. The row is the record as it was handed over: the
  conversion of its values by the client library is not part of this model.
\<close>

definition dynamodb_send ::
  "'n runtime \<Rightarrow> 'n command \<Rightarrow> 'n world \<Rightarrow> (store_error + 'n item option) \<times> 'n world" where
  "dynamodb_send rt c w =
     (let w1 = w\<lparr>requests := requests w @ [c]\<rparr> in
      case store_fault rt of
        Some e \<Rightarrow> (Inl e, w1)
      | None \<Rightarrow>
         (case TableName c of
            None \<Rightarrow> (Inl ValidationException, w1)
          | Some tn \<Rightarrow>
             (case tables w tn of
                None \<Rightarrow> (Inl ResourceNotFoundException, w1)
              | Some t \<Rightarrow>
                 (case c of
                    PutCommand _ it \<Rightarrow>
                     (case it partitionKey of
                        Some (JString k) \<Rightarrow>
                         if k = [] then (Inl ValidationException, w1)
                         else (Inr None, w1\<lparr>tables := (tables w)(tn \<mapsto> t(k \<mapsto> it))\<rparr>)
                      | _ \<Rightarrow> (Inl ValidationException, w1))
                  | GetCommand _ key \<Rightarrow>
                     (case key partitionKey of
                        Some (JString k) \<Rightarrow>
                         if k = [] then (Inl ValidationException, w1)
                         else (Inr (t k), w1)
                      | _ \<Rightarrow> (Inl ValidationException, w1))))))"

section \<open>The create handler\<close>

text \<open>
  A response carries a status code and a body. The body is the JSON text of an object; it is
  represented by that object: \<^verbatim>\<open>JSON.stringify({ message: m })\<close> by \<open>Message m\<close>, the text
  of a post by \<open>Record\<close>.
\<close>

datatype 'n payload =
    Message string
  | Record "'n item"

record 'n response =
  statusCode :: nat
  body :: "'n payload"

text \<open>\<^verbatim>\<open>!body\<close> for a body of type \<^verbatim>\<open>string | null\<close>: true of \<^verbatim>\<open>null\<close> and of the empty string.\<close>

fun falsy :: "string option \<Rightarrow> bool" where
  "falsy None = True"
| "falsy (Some s) = (s = [])"

text \<open>The object literal \<^verbatim>\<open>{ pk: `POST#${uuid}`, ...bodyParsed }\<close>.\<close>

definition post_item :: "string \<Rightarrow> 'n json \<Rightarrow> 'n item" where
  "post_item uuid bodyParsed =
     spread [''pk'' \<mapsto> JString (''POST#'' @ uuid)] (ownProperties bodyParsed)"

definition create ::
  "'n runtime \<Rightarrow> string option \<Rightarrow> 'n world \<Rightarrow> (error + 'n response) \<times> 'n world" where
  "create rt b w =
     (let uuid = randomUUID rt in
      if falsy b then (Inr \<lparr>statusCode = 400, body = Message ''Missing body''\<rparr>, w)
      else
        (case JSON_parse rt (the b) of
           None \<Rightarrow> (Inl SyntaxError, w)
         | Some bodyParsed \<Rightarrow>
            (case dynamodb_send rt (PutCommand (TABLE_NAME rt) (post_item uuid bodyParsed)) w of
               (Inl e, w') \<Rightarrow> (Inl (StoreError e), w')
             | (Inr out, w') \<Rightarrow>
                (Inr \<lparr>statusCode = 200, body = Message ''Post created''\<rparr>, w'))))"

section \<open>Reading a post back\<close>

text \<open>Modelled from the spec: the declaration of \<^verbatim>\<open>IPost\<close> (types.ts) is not among
  the sources. The spec gives the payload of a post as four string fields.\<close>

record IPost =
  title :: string
  description :: string
  author :: string
  publicationDate :: string

definition post_attributes :: "IPost \<Rightarrow> 'n item" where
  "post_attributes P =
     [''title'' \<mapsto> JString (title P), ''description'' \<mapsto> JString (description P),
      ''author'' \<mapsto> JString (author P), ''publicationDate'' \<mapsto> JString (publicationDate P)]"

text \<open>Modelled from the spec: the post object that the response of a read carries for a
  stored row. The spec gives it as the payload "plus a server-assigned id on responses":
  the attributes of the row without the storage key, and the identifier as \<open>id\<close>.\<close>

definition post_object :: "string \<Rightarrow> 'n item \<Rightarrow> 'n item" where
  "post_object ident row = (row(partitionKey := None))(''id'' \<mapsto> JString ident)"

text \<open>Modelled from the spec: the get-one handler (resources/handlers/posts/get-one.ts)
  is not among the sources. The spec: look up the record keyed by the namespaced identifier;
  if it is absent, answer 404 with the message "Post not found"; if it is present, answer 200
  with the post object. A failure of the store call is not handled and propagates.\<close>

definition getOne ::
  "'n runtime \<Rightarrow> string \<Rightarrow> 'n world \<Rightarrow> (error + 'n response) \<times> 'n world" where
  "getOne rt ident w =
     (case dynamodb_send rt
             (GetCommand (TABLE_NAME rt) [''pk'' \<mapsto> JString (''POST#'' @ ident)]) w of
        (Inl e, w') \<Rightarrow> (Inl (StoreError e), w')
      | (Inr None, w') \<Rightarrow>
         (Inr \<lparr>statusCode = 404, body = Message ''Post not found''\<rparr>, w')
      | (Inr (Some it), w') \<Rightarrow>
         (Inr \<lparr>statusCode = 200, body = Record (post_object ident it)\<rparr>, w'))"

section \<open>The stack\<close>

datatype AttributeType = STRING | NUMBER | BINARY

datatype RemovalPolicy = DESTROY | RETAIN | SNAPSHOT

datatype BillingMode = PAY_PER_REQUEST | PROVISIONED

datatype ApiKeySourceType = HEADER | AUTHORIZER

text \<open>
  What answers a method: a function of the stack, named by the identifier of its
  construct, or the gateway itself (a mock integration).
\<close>

datatype Integration = LambdaIntegration string | MockIntegration

record TableProps =
  partitionKeyName :: string
  partitionKeyType :: AttributeType
  removalPolicy :: RemovalPolicy
  billingMode :: BillingMode

record NodejsFunction =
  entry :: string
  handler :: string
  environment :: "(string \<times> string) list"

record Method =
  httpMethod :: string
  resourcePath :: string
  integration :: Integration
  apiKeyRequired :: bool

record CorsOptions =
  allowOrigins :: "string list"
  allowMethods :: "string list"

record RestApi =
  restApiName :: string
  defaultCorsPreflightOptions :: "CorsOptions option"
  apiKeySourceType :: ApiKeySourceType
  methods :: "Method list"

record UsagePlan =
  planName :: string
  apiStages :: "string list"
  planKeys :: "string list"

record Stack =
  dbTable :: TableProps
  api :: RestApi
  apiKey :: string
  usagePlan :: UsagePlan
  postsLambda :: NodejsFunction
  postLambda :: NodejsFunction
  readWriteGrants :: "string list"
  outputs :: "(string \<times> string) list"

text \<open>\<^verbatim>\<open>Cors.ALL_ORIGINS\<close> and \<^verbatim>\<open>Cors.ALL_METHODS\<close>.\<close>

definition ALL_ORIGINS :: "string list" where
  "ALL_ORIGINS = [''*'']"

definition ALL_METHODS :: "string list" where
  "ALL_METHODS = [''OPTIONS'', ''GET'', ''PUT'', ''POST'', ''DELETE'', ''PATCH'', ''HEAD'']"

text \<open>
  \<^verbatim>\<open>resource.addMethod(httpMethod, integration, options)\<close>. The option
  \<^verbatim>\<open>apiKeyRequired\<close> may be left out; a method then requires no key.
\<close>

definition addMethod ::
  "string \<Rightarrow> string \<Rightarrow> Integration \<Rightarrow> bool option \<Rightarrow> RestApi \<Rightarrow> RestApi" where
  "addMethod resource verb target required a =
     a\<lparr>methods := methods a @
        [\<lparr>httpMethod = verb, resourcePath = resource, integration = target,
          apiKeyRequired = (case required of None \<Rightarrow> False | Some r \<Rightarrow> r)\<rparr>]\<rparr>"

text \<open>
  With \<^verbatim>\<open>defaultCorsPreflightOptions\<close>, every resource of the API gets an OPTIONS method
  when it is created: the gateway answers the preflight request itself, and the method
  requires no key.
\<close>

definition addCorsPreflight :: "string \<Rightarrow> RestApi \<Rightarrow> RestApi" where
  "addCorsPreflight resource a =
     (case defaultCorsPreflightOptions a of
        None \<Rightarrow> a
      | Some opts \<Rightarrow> addMethod resource ''OPTIONS'' MockIntegration (Some False) a)"

text \<open>\<^verbatim>\<open>new RestApi(...)\<close>: the API with its root resource.\<close>

definition newRestApi :: "string \<Rightarrow> CorsOptions option \<Rightarrow> ApiKeySourceType \<Rightarrow> RestApi" where
  "newRestApi name cors source =
     addCorsPreflight ''/''
       \<lparr>restApiName = name, defaultCorsPreflightOptions = cors, apiKeySourceType = source,
        methods = []\<rparr>"

text \<open>\<^verbatim>\<open>parent.addResource(pathPart)\<close>: the path of the new resource, and the API with it.\<close>

definition addResource :: "string \<Rightarrow> string \<Rightarrow> RestApi \<Rightarrow> string \<times> RestApi" where
  "addResource parent pathPart a =
     (let path = (if parent = ''/'' then ''/'' @ pathPart else parent @ ''/'' @ pathPart)
      in (path, addCorsPreflight path a))"

text \<open>
  \<^verbatim>\<open>new NodejsFunction(...)\<close>: next to the environment it is given, the construct sets
  the variable that keeps the connections of the SDK alive.
\<close>

definition newNodejsFunction ::
  "string \<Rightarrow> string \<Rightarrow> (string \<times> string) list \<Rightarrow> NodejsFunction" where
  "newNodejsFunction file export env =
     \<lparr>entry = file, handler = export,
      environment = env @ [(''AWS_NODEJS_CONNECTION_REUSE_ENABLED'', ''1'')]\<rparr>"

definition addApiKey :: "string \<Rightarrow> UsagePlan \<Rightarrow> UsagePlan" where
  "addApiKey k plan = plan\<lparr>planKeys := planKeys plan @ [k]\<rparr>"

text \<open>
  The constructor of \<^verbatim>\<open>RestApiStack\<close>, step by step as it is written. The name of the
  table is chosen at deployment; it is the parameter \<open>tableName\<close>.
\<close>

definition RestApiStack :: "string \<Rightarrow> Stack" where
  "RestApiStack tableName =
     (let table = \<lparr>partitionKeyName = ''pk'', partitionKeyType = STRING,
                   removalPolicy = DESTROY, billingMode = PAY_PER_REQUEST\<rparr>;
          api0 = newRestApi ''RestAPI''
                   (Some \<lparr>allowOrigins = ALL_ORIGINS, allowMethods = ALL_METHODS\<rparr>) HEADER;
          key = ''ApiKey'';
          plan = addApiKey key
                   \<lparr>planName = ''Usage Plan'', apiStages = [restApiName api0], planKeys = []\<rparr>;
          postsFn = newNodejsFunction ''resources/endpoints/posts.ts'' ''handler''
                      [(''TABLE_NAME'', tableName)];
          postFn = newNodejsFunction ''resources/endpoints/post.ts'' ''handler''
                     [(''TABLE_NAME'', tableName)];
          (posts, api1) = addResource ''/'' ''posts'' api0;
          (post, api2) = addResource posts ''{id}'' api1;
          postsIntegration = LambdaIntegration ''PostsLambda'';
          postIntegration = LambdaIntegration ''PostLambda'';
          api3 = addMethod posts ''GET'' postsIntegration (Some True) api2;
          api4 = addMethod posts ''POST'' postsIntegration (Some True) api3;
          api5 = addMethod post ''GET'' postIntegration (Some True) api4;
          api6 = addMethod post ''DELETE'' postIntegration (Some True) api5
      in \<lparr>dbTable = table, api = api6, apiKey = key, usagePlan = plan,
          postsLambda = postsFn, postLambda = postFn,
          readWriteGrants = [''PostsLambda'', ''PostLambda''],
          outputs = [(''API Key ID'', key)]\<rparr>)"

section \<open>Example invocations\<close>

text \<open>
  Request bodies with the values \<^verbatim>\<open>JSON.parse\<close> gives for them; the last text is not
  JSON. The table \<open>parse_examples\<close> stands for \<^verbatim>\<open>JSON.parse\<close> in the examples, which
  apply it to these texts only.
\<close>

definition post_text :: string where
  \<open>post_text =
     ''{"title":"A","description":"d","author":"a","publicationDate":"2025-01-01"}''\<close>

definition post_A :: IPost where
  "post_A = \<lparr>title = ''A'', description = ''d'', author = ''a'',
              publicationDate = ''2025-01-01''\<rparr>"

definition keyed_text_B :: string where
  \<open>keyed_text_B = ''{"pk":"POST#1","title":"B"}''\<close>

definition keyed_text_C :: string where
  \<open>keyed_text_C = ''{"pk":"POST#1","title":"C"}''\<close>

definition broken_text :: string where
  \<open>broken_text = ''{"title":''\<close>

definition parse_examples :: "string \<Rightarrow> int json option" where
  "parse_examples =
     map_of
       [(post_text,
         JObject [(''title'', JString ''A''), (''description'', JString ''d''),
                  (''author'', JString ''a''), (''publicationDate'', JString ''2025-01-01'')]),
        (keyed_text_B, JObject [(''pk'', JString ''POST#1''), (''title'', JString ''B'')]),
        (keyed_text_C, JObject [(''pk'', JString ''POST#1''), (''title'', JString ''C'')])]"

definition uuid_1 :: string where
  "uuid_1 = ''1b4e28ba-2fa1-41d2-883f-0016d3cca427''"

definition uuid_2 :: string where
  "uuid_2 = ''6fa459ea-ee8a-4ca4-894e-db77e160355e''"

text \<open>An invocation in a deployment whose table is named "Posts".\<close>

definition invocation :: "string \<Rightarrow> store_error option \<Rightarrow> int runtime" where
  "invocation uuid fault =
     \<lparr>TABLE_NAME = Some ''Posts'', randomUUID = uuid, JSON_parse = parse_examples,
      store_fault = fault\<rparr>"

definition fresh_world :: "int world" where
  "fresh_world = \<lparr>tables = [''Posts'' \<mapsto> Map.empty], requests = []\<rparr>"

text \<open>
  The store after two invocations that both carry a \<open>pk\<close> field in the body: the first
  with \<open>uuid_1\<close>, the second with \<open>uuid_2\<close>.
\<close>

definition after_two_creates :: "int world" where
  "after_two_creates =
     snd (create (invocation uuid_2 None) (Some keyed_text_C)
            (snd (create (invocation uuid_1 None) (Some keyed_text_B) fresh_world)))"

section \<open>Auxiliary facts\<close>

lemmas example_defs =
  parse_examples_def post_text_def keyed_text_B_def keyed_text_C_def
  broken_text_def invocation_def fresh_world_def uuid_1_def uuid_2_def post_A_def

text \<open>Spreading a list of properties overrides the target with the last value of each name.\<close>

lemma spread_map_add: "spread m kvs = m ++ map_of (rev kvs)"
  unfolding spread_def by (induction kvs arbitrary: m) auto

text \<open>
  The attributes of the record that create builds: those of the parsed body, and \<open>pk\<close> with
  the prefixed identifier where the body has no property of that name.
\<close>

lemma post_item_apply:
  "post_item uuid v k =
     (case property v k of
        Some x \<Rightarrow> Some x
      | None \<Rightarrow> if k = ''pk'' then Some (JString (''POST#'' @ uuid)) else None)"
  by (simp add: post_item_def spread_map_add property_def map_add_def split: option.split)

lemma post_item_key:
  "property v ''pk'' = None \<Longrightarrow> post_item uuid v ''pk'' = Some (JString (''POST#'' @ uuid))"
  by (simp add: post_item_apply)

lemma post_item_field: "property v k = Some x \<Longrightarrow> post_item uuid v k = Some x"
  by (simp add: post_item_apply)

text \<open>With a body that passes the check and parses, create is its one call of the store.\<close>

lemma create_present:
  assumes "\<not> falsy b" and "JSON_parse rt (the b) = Some v"
  shows "create rt b w =
     (case dynamodb_send rt (PutCommand (TABLE_NAME rt) (post_item (randomUUID rt) v)) w of
        (Inl e, w') \<Rightarrow> (Inl (StoreError e), w')
      | (Inr out, w') \<Rightarrow> (Inr \<lparr>statusCode = 200, body = Message ''Post created''\<rparr>, w'))"
  using assms by (simp add: create_def Let_def)

lemma send_requests: "dynamodb_send rt c w = (r, w') \<Longrightarrow> requests w' = requests w @ [c]"
  by (auto simp: dynamodb_send_def Let_def
      split: option.splits json.splits if_splits command.splits)

lemma send_rejected: "dynamodb_send rt c w = (Inl e, w') \<Longrightarrow> tables w' = tables w"
  by (auto simp: dynamodb_send_def Let_def
      split: option.splits json.splits if_splits command.splits)

lemma put_accepted:
  assumes "dynamodb_send rt (PutCommand tno it) w = (Inr out, w')"
  shows "\<exists>tn t k. tno = Some tn \<and> tables w tn = Some t \<and> it partitionKey = Some (JString k)
           \<and> k \<noteq> [] \<and> store_fault rt = None \<and> tables w' = (tables w)(tn \<mapsto> t(k \<mapsto> it))"
  using assms
  by (auto simp: dynamodb_send_def Let_def split: option.splits json.splits if_splits)

lemma get_accepted:
  assumes "store_fault rt = None" and "tables w tn = Some t" and "k \<noteq> []"
  shows "dynamodb_send rt (GetCommand (Some tn) [''pk'' \<mapsto> JString k]) w =
           (Inr (t k), w\<lparr>requests := requests w @ [GetCommand (Some tn) [''pk'' \<mapsto> JString k]]\<rparr>)"
  using assms by (simp add: dynamodb_send_def Let_def partitionKey_def)

text \<open>
  The store model and the stack agree: the key attribute is the one the stack declares, and
  both functions get the name of the table as \<open>TABLE_NAME\<close>.
\<close>

lemma partitionKey_declared:
  "partitionKeyName (dbTable (RestApiStack tn)) = partitionKey
   \<and> partitionKeyType (dbTable (RestApiStack tn)) = STRING"
  by (simp add: RestApiStack_def partitionKey_def Let_def split: prod.split)

lemma stack_sets_TABLE_NAME:
  "map_of (environment (postsLambda (RestApiStack tn))) ''TABLE_NAME'' = Some tn
   \<and> map_of (environment (postLambda (RestApiStack tn))) ''TABLE_NAME'' = Some tn"
  by (simp add: RestApiStack_def newNodejsFunction_def Let_def split: prod.split)

lemmas run_defs =
  create_def getOne_def post_object_def dynamodb_send_def post_item_def spread_def
  partitionKey_def Let_def

lemmas stack_defs =
  RestApiStack_def newRestApi_def addResource_def addCorsPreflight_def addMethod_def
  addApiKey_def newNodejsFunction_def Let_def

lemma create_present_world:
  assumes "\<not> falsy b" and "JSON_parse rt (the b) = Some v"
  shows "snd (create rt b w)
           = snd (dynamodb_send rt (PutCommand (TABLE_NAME rt) (post_item (randomUUID rt) v)) w)"
  using assms by (simp add: create_present split: prod.split sum.split)

lemma send_log: "requests (snd (dynamodb_send rt c w)) = requests w @ [c]"
  using send_requests [of rt c w] by (cases "dynamodb_send rt c w") simp

text \<open>For a payload with the four fields of a post, the record is the payload and the key.\<close>

lemma post_item_of_post:
  assumes "property v = post_attributes P"
  shows "post_item uuid v = (post_attributes P)(''pk'' \<mapsto> JString (''POST#'' @ uuid))"
proof
  fix k
  have "post_attributes P ''pk'' = (None :: 'a json option)"
    by (simp add: post_attributes_def)
  then show "post_item uuid v k = ((post_attributes P)(''pk'' \<mapsto> JString (''POST#'' @ uuid))) k"
    using assms by (simp add: post_item_apply split: option.split)
qed

text \<open>
  The record that create writes: its attributes other than \<open>pk\<close> are the fields of the
  parsed body, and \<open>pk\<close> holds the prefixed identifier when the body has no field \<open>pk\<close>.
\<close>

lemma create_record_attributes:
  assumes "\<not> falsy b" and "JSON_parse rt (the b) = Some v"
  shows "\<exists>it. requests (snd (create rt b w)) = requests w @ [PutCommand (TABLE_NAME rt) it]
           \<and> it ''id'' = property v ''id''
           \<and> (\<forall>k. k \<noteq> ''pk'' \<longrightarrow> it k = property v k)
           \<and> (property v ''pk'' = None \<longrightarrow> it ''pk'' = Some (JString (''POST#'' @ randomUUID rt)))"
proof (intro exI conjI)
  let ?it = "post_item (randomUUID rt) v"
  show "requests (snd (create rt b w)) = requests w @ [PutCommand (TABLE_NAME rt) ?it]"
    using assms by (simp add: create_present_world send_log)
  show "?it ''id'' = property v ''id''"
    by (simp add: post_item_apply split: option.split)
  show "\<forall>k. k \<noteq> ''pk'' \<longrightarrow> ?it k = property v k"
    by (simp add: post_item_apply split: option.split)
  show "property v ''pk'' = None \<longrightarrow> ?it ''pk'' = Some (JString (''POST#'' @ randomUUID rt))"
    by (simp add: post_item_apply)
qed

text \<open>The post object of a record that consists of a payload and the key.\<close>

lemma post_object_of_post:
  "post_object ident ((post_attributes P)(''pk'' \<mapsto> x)) = (post_attributes P)(''id'' \<mapsto> JString ident)"
  by (rule ext) (simp add: post_object_def partitionKey_def post_attributes_def)

section \<open>Properties of the create handler\<close>

text \<open>
  C1. A call of create with an absent (null) body returns status 400 with the message
  "Missing body" and leaves the store as it was: no table changes and no command is sent.
\<close>

theorem create_null_body:
  "create rt None w = (Inr \<lparr>statusCode = 400, body = Message ''Missing body''\<rparr>, w)"
  by (simp add: create_def)

text \<open>
  C4. When the body is present and parses and the store accepts the write, create sends
  exactly one command, a put on the table named by \<open>TABLE_NAME\<close>, the only configuration
  value it reads; that table gets the record as the row of its key, and the response is
  200 with the message "Post created".
\<close>

theorem create_writes_once:
  assumes "\<not> falsy b" and "JSON_parse rt (the b) = Some v"
    and "dynamodb_send rt (PutCommand (TABLE_NAME rt) (post_item (randomUUID rt) v)) w
           = (Inr out, w')"
  shows "create rt b w = (Inr \<lparr>statusCode = 200, body = Message ''Post created''\<rparr>, w')
       \<and> requests w' = requests w @ [PutCommand (TABLE_NAME rt) (post_item (randomUUID rt) v)]
       \<and> (\<exists>tn t k. TABLE_NAME rt = Some tn \<and> tables w tn = Some t
             \<and> post_item (randomUUID rt) v ''pk'' = Some (JString k)
             \<and> tables w' = (tables w)(tn \<mapsto> t(k \<mapsto> post_item (randomUUID rt) v)))"
proof -
  have "create rt b w = (Inr \<lparr>statusCode = 200, body = Message ''Post created''\<rparr>, w')"
    using assms by (simp add: create_present)
  moreover
  have "requests w' = requests w @ [PutCommand (TABLE_NAME rt) (post_item (randomUUID rt) v)]"
    using assms(3) by (rule send_requests)
  moreover
  have "\<exists>tn t k. TABLE_NAME rt = Some tn \<and> tables w tn = Some t
             \<and> post_item (randomUUID rt) v ''pk'' = Some (JString k)
             \<and> tables w' = (tables w)(tn \<mapsto> t(k \<mapsto> post_item (randomUUID rt) v))"
    using put_accepted [OF assms(3)] by (auto simp: partitionKey_def)
  ultimately show ?thesis by blast
qed

theorem create_writes_once_witness:
  "\<not> falsy (Some post_text)
   \<and> parse_examples post_text \<noteq> None
   \<and> create (invocation uuid_1 None) (Some post_text) fresh_world
     = (Inr \<lparr>statusCode = 200, body = Message ''Post created''\<rparr>,
        \<lparr>tables =
           [''Posts'' \<mapsto>
              [''POST#'' @ uuid_1 \<mapsto> post_item uuid_1 (the (parse_examples post_text))]],
         requests =
           [PutCommand (Some ''Posts'') (post_item uuid_1 (the (parse_examples post_text)))]\<rparr>)"
proof -
  let ?rt = "invocation uuid_1 None"
  let ?v = "the (parse_examples post_text)"
  let ?it = "post_item uuid_1 ?v"
  let ?w' = "\<lparr>tables = [''Posts'' \<mapsto> [''POST#'' @ uuid_1 \<mapsto> ?it]],
              requests = [PutCommand (Some ''Posts'') ?it]\<rparr>"
  have p: "\<not> falsy (Some post_text)"
    by (simp add: post_text_def)
  have n: "parse_examples post_text \<noteq> None"
    by (simp add: example_defs)
  have q: "JSON_parse ?rt (the (Some post_text)) = Some ?v"
    by (simp add: example_defs)
  have k: "?it ''pk'' = Some (JString (''POST#'' @ uuid_1))"
    by (simp add: post_item_apply property_def example_defs)
  have s: "dynamodb_send ?rt (PutCommand (TABLE_NAME ?rt) (post_item (randomUUID ?rt) ?v))
             fresh_world = (Inr None, ?w')"
    using k by (simp add: dynamodb_send_def Let_def partitionKey_def invocation_def fresh_world_def)
  show ?thesis
    using p n create_writes_once [OF p q s] by simp
qed

text \<open>
  C6. When the store rejects the write, create does not handle the failure: the error of
  the store leaves the handler as an exception, the put was sent once and not again, and
  no table has changed.
\<close>

theorem create_store_failure:
  assumes "\<not> falsy b" and "JSON_parse rt (the b) = Some v"
    and "dynamodb_send rt (PutCommand (TABLE_NAME rt) (post_item (randomUUID rt) v)) w
           = (Inl e, w')"
  shows "create rt b w = (Inl (StoreError e), w')
       \<and> requests w' = requests w @ [PutCommand (TABLE_NAME rt) (post_item (randomUUID rt) v)]
       \<and> tables w' = tables w"
  using assms by (simp add: create_present send_requests send_rejected)

theorem create_store_failure_witness:
  "\<not> falsy (Some post_text)
   \<and> parse_examples post_text \<noteq> None
   \<and> create (invocation uuid_1 (Some ThrottlingException)) (Some post_text) fresh_world
       = (Inl (StoreError ThrottlingException),
          fresh_world\<lparr>requests :=
            [PutCommand (Some ''Posts'') (post_item uuid_1 (the (parse_examples post_text)))]\<rparr>)"
proof -
  let ?rt = "invocation uuid_1 (Some ThrottlingException)"
  let ?v = "the (parse_examples post_text)"
  let ?w' = "fresh_world\<lparr>requests := [PutCommand (Some ''Posts'') (post_item uuid_1 ?v)]\<rparr>"
  have p: "\<not> falsy (Some post_text)"
    by (simp add: post_text_def)
  have n: "parse_examples post_text \<noteq> None"
    by (simp add: example_defs)
  have q: "JSON_parse ?rt (the (Some post_text)) = Some ?v"
    by (simp add: example_defs)
  have s: "dynamodb_send ?rt (PutCommand (TABLE_NAME ?rt) (post_item (randomUUID ?rt) ?v))
             fresh_world = (Inl ThrottlingException, ?w')"
    by (simp add: dynamodb_send_def Let_def invocation_def fresh_world_def)
  show ?thesis
    using p n create_store_failure [OF p q s] by simp
qed

text \<open>
  C8. When the body passes the missing-body check but is not JSON, create sends nothing to
  the store and the exception of the parser leaves the handler; no response is returned, in
  particular none with status 400.
\<close>

theorem create_unparsable_body:
  assumes "\<not> falsy b" and "JSON_parse rt (the b) = None"
  shows "create rt b w = (Inl SyntaxError, w) \<and> (\<forall>r. fst (create rt b w) \<noteq> Inr r)"
  using assms by (simp add: create_def)

theorem create_unparsable_body_witness:
  "\<not> falsy (Some broken_text)
   \<and> parse_examples broken_text = None
   \<and> create (invocation uuid_1 None) (Some broken_text) fresh_world
       = (Inl SyntaxError, fresh_world)"
proof -
  let ?rt = "invocation uuid_1 None"
  have p: "\<not> falsy (Some broken_text)"
    by (simp add: broken_text_def)
  have n: "parse_examples broken_text = None"
    by (simp add: example_defs)
  then have q: "JSON_parse ?rt (the (Some broken_text)) = None"
    by (simp add: invocation_def)
  show ?thesis
    using p n create_unparsable_body [OF p q, of fresh_world] by simp
qed

text \<open>
  C9. The empty string is treated as an absent body: create answers 400 with the message
  "Missing body" and leaves the store as it was, exactly as for null. The check rejects
  the falsy values of the body, which are null and the empty string.
\<close>

theorem create_empty_body:
  "create rt (Some []) w = (Inr \<lparr>statusCode = 400, body = Message ''Missing body''\<rparr>, w)
   \<and> create rt (Some []) w = create rt None w
   \<and> falsy b = (b = None \<or> b = Some [])"
  by (cases b) (simp_all add: create_def)

text \<open>
  C2. The identifier under which a record is stored is meant to be the one create generates,
  never one the caller sends, so that two calls never share a key. Evaluated on two calls
  with distinct generated identifiers whose bodies both carry the field \<open>pk\<close> with the
  value "POST#1": both records are written under the key "POST#1", and the table ends with
  the single row of the second call.
\<close>

theorem create_twice_same_key:
  "uuid_1 \<noteq> uuid_2
   \<and> requests after_two_creates
       = [PutCommand (Some ''Posts'') [''pk'' \<mapsto> JString ''POST#1'', ''title'' \<mapsto> JString ''B''],
          PutCommand (Some ''Posts'') [''pk'' \<mapsto> JString ''POST#1'', ''title'' \<mapsto> JString ''C'']]
   \<and> tables after_two_creates
       = [''Posts'' \<mapsto> [''POST#1'' \<mapsto> [''pk'' \<mapsto> JString ''POST#1'', ''title'' \<mapsto> JString ''C'']]]"
  by (simp add: after_two_creates_def run_defs example_defs)

text \<open>
  C3. The record is meant to be keyed by the prefix "POST#" followed by the generated
  identifier and to hold that key next to the fields of the body. Evaluated on a body that
  carries the field \<open>pk\<close>: the record that is written and stored has the \<open>pk\<close> of the
  body, which is not the prefixed generated identifier.
\<close>

theorem create_body_pk_record:
  "create (invocation uuid_1 None) (Some keyed_text_B) fresh_world
     = (Inr \<lparr>statusCode = 200, body = Message ''Post created''\<rparr>,
        \<lparr>tables = [''Posts'' \<mapsto> [''POST#1'' \<mapsto> [''pk'' \<mapsto> JString ''POST#1'', ''title'' \<mapsto> JString ''B'']]],
         requests = [PutCommand (Some ''Posts'') [''pk'' \<mapsto> JString ''POST#1'', ''title'' \<mapsto> JString ''B'']]\<rparr>)
   \<and> ''POST#1'' \<noteq> ''POST#'' @ uuid_1"
  by (simp add: run_defs example_defs)

text \<open>
  C10. The record that create writes is meant to have no attribute \<open>id\<close> and to carry the
  generated identifier in the attribute \<open>pk\<close>, after the prefix "POST#", next to the fields
  of the body. Evaluated on a body that carries the field \<open>pk\<close>: the record consists of
  the two fields of the body, and its \<open>pk\<close> is that of the body, not the prefixed
  generated identifier.
\<close>

theorem create_body_pk_drops_identifier:
  "requests (snd (create (invocation uuid_2 None) (Some keyed_text_C) fresh_world))
     = [PutCommand (Some ''Posts'') [''pk'' \<mapsto> JString ''POST#1'', ''title'' \<mapsto> JString ''C'']]
   \<and> ''POST#1'' \<noteq> ''POST#'' @ uuid_2"
  by (simp add: run_defs example_defs)

section \<open>Create followed by get-one\<close>

text \<open>
  C5. For a payload P with the four fields of a post: when create succeeds on a body that
  parses to P, a following get-one on the same table, for the identifier that this create
  generated, answers 200 with the record that is P plus the generated identifier as \<open>id\<close>.
\<close>

theorem create_then_getOne:
  assumes "\<not> falsy b" and "JSON_parse rt (the b) = Some v" and "property v = post_attributes P"
    and "create rt b w = (Inr r, w')"
    and "TABLE_NAME rt' = TABLE_NAME rt" and "store_fault rt' = None"
  shows "fst (getOne rt' (randomUUID rt) w')
           = Inr \<lparr>statusCode = 200,
                  body = Record ((post_attributes P)(''id'' \<mapsto> JString (randomUUID rt)))\<rparr>"
proof -
  let ?it = "post_item (randomUUID rt) v"
  let ?k = "''POST#'' @ randomUUID rt"
  have it: "?it = (post_attributes P)(''pk'' \<mapsto> JString ?k)"
    using assms(3) by (rule post_item_of_post)
  obtain out where s: "dynamodb_send rt (PutCommand (TABLE_NAME rt) ?it) w = (Inr out, w')"
    using assms(4) create_present [OF assms(1,2), of w]
    by (auto split: prod.splits sum.splits)
  from put_accepted [OF s] obtain tn t k where
    tn: "TABLE_NAME rt = Some tn" and t: "tables w tn = Some t"
    and k: "?it partitionKey = Some (JString k)"
    and w': "tables w' = (tables w)(tn \<mapsto> t(k \<mapsto> ?it))"
    by blast
  from k it have "k = ?k" by (simp add: partitionKey_def)
  with w' have row: "tables w' tn = Some (t(?k \<mapsto> ?it))" by simp
  have "?k \<noteq> []" by simp
  from get_accepted [OF assms(6) row this] tn assms(5)
  have "fst (getOne rt' (randomUUID rt) w')
          = Inr \<lparr>statusCode = 200, body = Record (post_object (randomUUID rt) ?it)\<rparr>"
    by (simp add: getOne_def)
  then show ?thesis
    by (simp add: it post_object_of_post)
qed

theorem create_then_getOne_witness:
  "\<not> falsy (Some post_text)
   \<and> parse_examples post_text \<noteq> None
   \<and> fst (create (invocation uuid_1 None) (Some post_text) fresh_world)
       = Inr \<lparr>statusCode = 200, body = Message ''Post created''\<rparr>
   \<and> fst (getOne (invocation uuid_2 None) uuid_1
             (snd (create (invocation uuid_1 None) (Some post_text) fresh_world)))
       = Inr \<lparr>statusCode = 200,
              body = Record ((post_attributes post_A)(''id'' \<mapsto> JString uuid_1))\<rparr>"
proof -
  let ?rt = "invocation uuid_1 None"
  let ?rt' = "invocation uuid_2 None"
  let ?v = "the (parse_examples post_text)"
  let ?c = "create ?rt (Some post_text) fresh_world"
  have p: "\<not> falsy (Some post_text)"
    by (simp add: post_text_def)
  have n: "parse_examples post_text \<noteq> None"
    by (simp add: example_defs)
  have q: "JSON_parse ?rt (the (Some post_text)) = Some ?v"
    by (simp add: example_defs)
  have a: "property ?v = post_attributes post_A"
    by (rule ext) (simp add: property_def post_attributes_def example_defs)
  have c: "fst ?c = Inr \<lparr>statusCode = 200, body = Message ''Post created''\<rparr>"
    by (simp add: run_defs example_defs)
  then have c': "?c = (Inr \<lparr>statusCode = 200, body = Message ''Post created''\<rparr>, snd ?c)"
    by (simp add: prod_eq_iff)
  have e: "TABLE_NAME ?rt' = TABLE_NAME ?rt" "store_fault ?rt' = None"
    by (simp_all add: invocation_def)
  have "randomUUID ?rt = uuid_1" by (simp add: invocation_def)
  with p n c create_then_getOne [OF p q a c' e] show ?thesis by simp
qed

section \<open>Properties of the stack\<close>

text \<open>
  C7, as stated, on the stack deployed with a table named "Posts": the API has seven
  methods, and the three OPTIONS methods, on /, /posts and /posts/{id}, require no key.
\<close>

theorem stack_preflight_needs_no_key:
  "map (\<lambda>m. (httpMethod m, resourcePath m, apiKeyRequired m))
       (methods (api (RestApiStack ''Posts'')))
     = [(''OPTIONS'', ''/'', False), (''OPTIONS'', ''/posts'', False),
        (''OPTIONS'', ''/posts/{id}'', False),
        (''GET'', ''/posts'', True), (''POST'', ''/posts'', True),
        (''GET'', ''/posts/{id}'', True), (''DELETE'', ''/posts/{id}'', True)]
   \<and> \<not> list_all apiKeyRequired (methods (api (RestApiStack ''Posts'')))"
  by (simp add: stack_defs)

text \<open>
  C7, amended. The methods of the API that are answered by a function are GET and POST on
  /posts and GET and DELETE on /posts/{id}; each of them requires an API key. The API reads
  the key from a header, and the key of the stack is attached to the usage plan of the API.
  The other methods of the API are the OPTIONS methods of the three resources, which the
  gateway answers itself and which require no key.
\<close>

theorem stack_keyed_methods:
  "map (\<lambda>m. (httpMethod m, resourcePath m, integration m, apiKeyRequired m))
       (filter (\<lambda>m. integration m \<noteq> MockIntegration) (methods (api (RestApiStack tn))))
     = [(''GET'', ''/posts'', LambdaIntegration ''PostsLambda'', True),
        (''POST'', ''/posts'', LambdaIntegration ''PostsLambda'', True),
        (''GET'', ''/posts/{id}'', LambdaIntegration ''PostLambda'', True),
        (''DELETE'', ''/posts/{id}'', LambdaIntegration ''PostLambda'', True)]
   \<and> map (\<lambda>m. (httpMethod m, resourcePath m, apiKeyRequired m))
       (filter (\<lambda>m. integration m = MockIntegration) (methods (api (RestApiStack tn))))
     = [(''OPTIONS'', ''/'', False), (''OPTIONS'', ''/posts'', False),
        (''OPTIONS'', ''/posts/{id}'', False)]
   \<and> apiKeySourceType (api (RestApiStack tn)) = HEADER
   \<and> planKeys (usagePlan (RestApiStack tn)) = [apiKey (RestApiStack tn)]
   \<and> apiStages (usagePlan (RestApiStack tn)) = [restApiName (api (RestApiStack tn))]"
  by (simp add: stack_defs)

end
